theory Spec2Isabelle
  imports Complex_Main
begin

section \<open>Data model of \<open>pyfair/model/model_input.py\<close>\<close>

text \<open>
  Keyword arguments are a Python \<open>dict\<close>: an association list in insertion order whose
  keys are distinct. The order matters, because every check loops over \<open>kwargs.items()\<close>
  and raises at the first offending item. Values are modelled as real numbers.
\<close>

type_synonym kwargs = "(string \<times> real) list"

type_synonym nested_kwargs = "(string \<times> (string \<times> kwargs) list) list"

text \<open>The four bound methods \<open>_gen_constant\<close>, \<open>_gen_pert\<close>, \<open>_gen_normal\<close>, \<open>_gen_bernoulli\<close>
  that serve as values of \<open>_parameter_map\<close> and as keys of \<open>_required_keywords\<close>.\<close>

datatype gen_func = Gen_constant | Gen_pert | Gen_normal | Gen_bernoulli

text \<open>
  The source raises one exception class, \<open>FairException\<close>, with six message templates:
  \<^item> \<open>OutOfRange target key\<close>: \<open>"target" must have "key" value between zero and one.\<close>
  \<^item> \<open>NegativeValue key\<close>: \<open>"key" is less than zero.\<close>
  \<^item> \<open>MissingKeyword f key\<close>: \<open>"f" is missing "key".\<close>
  \<^item> \<open>UnrecognizedKeyword key\<close>: \<open>"key" is not a recognized keyword\<close>
  \<^item> \<open>MixedKeyword keys\<close>: \<open>"keys" mixes incompatible keywords.\<close>
  \<^item> \<open>PertOrdering kwargs condition\<close>: \<open>Param "kwargs" fails PERT requirement "condition".\<close>
\<close>

datatype fair_message =
    OutOfRange string string
  | NegativeValue string
  | MissingKeyword gen_func string
  | UnrecognizedKeyword string
  | MixedKeyword "string list"
  | PertOrdering kwargs string

text \<open>Everything a call can raise: \<open>FairException\<close>, or one of Python's built-in errors.\<close>

datatype error =
    FairException fair_message
  | IndexError
  | KeyError string
  | ValueError string
  | TypeError string

text \<open>What \<open>_supplied_values\<close> holds per key: the keyword arguments of \<open>generate\<close>, or the
  nested dictionary of \<open>generate_multi\<close>.\<close>

datatype supplied = Params kwargs | Nested nested_kwargs

type_synonym supplied_values = "(string \<times> supplied) list"

subsection \<open>Python dictionaries\<close>

definition dict_keys :: "('k \<times> 'v) list \<Rightarrow> 'k list" where
  "dict_keys d = map fst d"

definition dict_get :: "('k \<times> 'v) list \<Rightarrow> 'k \<Rightarrow> 'v option" where
  "dict_get d k = map_of d k"

text \<open>\<open>d[k] = v\<close>: an existing key keeps its position and takes the new value, a new key is
  appended.\<close>

fun dict_set :: "('k \<times> 'v) list \<Rightarrow> 'k \<Rightarrow> 'v \<Rightarrow> ('k \<times> 'v) list" where
  "dict_set [] k v = [(k, v)]"
| "dict_set ((k', v') # d) k v = (if k' = k then (k, v) # d else (k', v') # dict_set d k v)"

subsection \<open>The tables set up by \<open>__init__\<close>\<close>

definition le_1_targets :: "string list" where
  "le_1_targets = [''Action'', ''Vulnerability'', ''Control Strength'', ''Threat Capability'']"

definition le_1_keywords :: "string list" where
  "le_1_keywords = [''constant'', ''high'', ''mode'', ''low'', ''mean'', ''p'']"

definition parameter_map :: "(string \<times> gen_func) list" where
  "parameter_map =
     [(''constant'', Gen_constant),
      (''high'', Gen_pert),
      (''mode'', Gen_pert),
      (''low'', Gen_pert),
      (''gamma'', Gen_pert),
      (''mean'', Gen_normal),
      (''stdev'', Gen_normal),
      (''p'', Gen_bernoulli)]"

definition bernoulli_targets :: "string list" where
  "bernoulli_targets = [''Vulnerability'']"

fun required_keywords :: "gen_func \<Rightarrow> string list" where
  "required_keywords Gen_constant = [''constant'']"
| "required_keywords Gen_pert = [''low'', ''mode'', ''high'']"
| "required_keywords Gen_normal = [''mean'', ''stdev'']"
| "required_keywords Gen_bernoulli = [''p'']"

subsection \<open>The sampling libraries\<close>

text \<open>
  \<open>scipy.stats\<close> and \<open>FairBetaPert\<close> are not part of the file; they are taken as
  parameters. Each entry is one library call: it reads and advances the state \<open>'g\<close> of the
  random number generator and either raises or returns an array of samples.
  \<^item> \<open>bernoulli_rvs kwargs count\<close> is \<open>scipy.stats.bernoulli(**kwargs).rvs(count)\<close>;
  \<^item> \<open>norm_rvs loc scale count\<close> is \<open>scipy.stats.norm(loc=loc, scale=scale).rvs(count)\<close>;
  \<^item> \<open>pert_random_variates kwargs count\<close> is \<open>FairBetaPert(**kwargs).random_variates(count)\<close>.
\<close>

record 'g sampling =
  bernoulli_rvs :: "kwargs \<Rightarrow> int \<Rightarrow> 'g \<Rightarrow> (error + real list) \<times> 'g"
  norm_rvs :: "real \<Rightarrow> real \<Rightarrow> int \<Rightarrow> 'g \<Rightarrow> (error + real list) \<times> 'g"
  pert_random_variates :: "kwargs \<Rightarrow> int \<Rightarrow> 'g \<Rightarrow> (error + real list) \<times> 'g"

section \<open>Validation\<close>

text \<open>\<open>_check_le_1\<close>: the loop over \<open>kwargs.items()\<close>, raising at the first value outside
  \<open>[0, 1]\<close> whose key is not \<open>stdev\<close>.\<close>

fun check_le_1 :: "string \<Rightarrow> kwargs \<Rightarrow> error + unit" where
  "check_le_1 target [] = Inr ()"
| "check_le_1 target ((key, v) # kw) =
     (if target \<in> set le_1_targets then
        (if key = ''stdev'' then check_le_1 target kw
         else if 0 \<le> v \<and> v \<le> 1 then check_le_1 target kw
         else Inl (FairException (OutOfRange target key)))
      else check_le_1 target kw)"

text \<open>\<open>_check_parameters\<close>, first loop: no relevant keyword may be below zero.\<close>

definition keyword_is_relevant :: "string \<Rightarrow> bool" where
  "keyword_is_relevant keyword \<longleftrightarrow>
     keyword \<in> set [''p'', ''mean'', ''constant'', ''low'', ''mode'', ''high'']"

fun check_less_than_zero :: "kwargs \<Rightarrow> error + unit" where
  "check_less_than_zero [] = Inr ()"
| "check_less_than_zero ((keyword, v) # kw) =
     (if keyword_is_relevant keyword \<and> v < 0
      then Inl (FairException (NegativeValue keyword))
      else check_less_than_zero kw)"

text \<open>\<open>_check_parameters\<close>, second loop: every required keyword is a key of \<open>kwargs\<close>.\<close>

fun check_required :: "gen_func \<Rightarrow> string list \<Rightarrow> kwargs \<Rightarrow> error + unit" where
  "check_required f [] kw = Inr ()"
| "check_required f (required_keyword # rs) kw =
     (if required_keyword \<in> set (dict_keys kw) then check_required f rs kw
      else Inl (FairException (MissingKeyword f required_keyword)))"

definition check_parameters :: "gen_func \<Rightarrow> kwargs \<Rightarrow> error + unit" where
  "check_parameters target_function kw =
     (case check_less_than_zero kw of
        Inl e \<Rightarrow> Inl e
      | Inr _ \<Rightarrow> check_required target_function (required_keywords target_function) kw)"

text \<open>\<open>_determine_func\<close>: every key is recognised; the set of functions the keys map to
  has at most one element; the function returned is element \<open>0\<close> of that set as a list.\<close>

fun check_recognized :: "string list \<Rightarrow> error + unit" where
  "check_recognized [] = Inr ()"
| "check_recognized (key # ks) =
     (if key \<in> set (dict_keys parameter_map) then check_recognized ks
      else Inl (FairException (UnrecognizedKeyword key)))"

fun lookup_functions :: "string list \<Rightarrow> error + gen_func list" where
  "lookup_functions [] = Inr []"
| "lookup_functions (key # ks) =
     (case dict_get parameter_map key of
        None \<Rightarrow> Inl (KeyError key)
      | Some f \<Rightarrow>
          (case lookup_functions ks of
             Inl e \<Rightarrow> Inl e
           | Inr fs \<Rightarrow> Inr (f # fs)))"

definition determine_func :: "kwargs \<Rightarrow> error + gen_func" where
  "determine_func kw =
     (case check_recognized (dict_keys kw) of
        Inl e \<Rightarrow> Inl e
      | Inr _ \<Rightarrow>
          (case lookup_functions (dict_keys kw) of
             Inl e \<Rightarrow> Inl e
           | Inr fs \<Rightarrow>
               (let functions = remdups fs in
                if length functions > 1 then Inl (FairException (MixedKeyword (dict_keys kw)))
                else (case functions of
                        [] \<Rightarrow> Inl IndexError
                      | function # _ \<Rightarrow> Inr function))))"

text \<open>\<open>_check_pert\<close>: both conditions are computed (each lookup may raise \<open>KeyError\<close>), then
  the first one that is false raises.\<close>

definition check_pert :: "kwargs \<Rightarrow> error + unit" where
  "check_pert kw =
     (case dict_get kw ''mode'' of
        None \<Rightarrow> Inl (KeyError ''mode'')
      | Some mode \<Rightarrow>
     (case dict_get kw ''low'' of
        None \<Rightarrow> Inl (KeyError ''low'')
      | Some low \<Rightarrow>
     (case dict_get kw ''high'' of
        None \<Rightarrow> Inl (KeyError ''high'')
      | Some high \<Rightarrow>
          (if \<not> (mode \<ge> low) then Inl (FairException (PertOrdering kw ''mode >= low''))
           else if \<not> (high \<ge> mode) then Inl (FairException (PertOrdering kw ''high >= mode''))
           else Inr ()))))"

section \<open>Samplers\<close>

definition gen_bernoulli ::
  "'g sampling \<Rightarrow> int \<Rightarrow> kwargs \<Rightarrow> 'g \<Rightarrow> (error + real list) \<times> 'g" where
  "gen_bernoulli lib count kw g = bernoulli_rvs lib kw count g"

text \<open>\<open>np.full(count, kwargs['constant'])\<close>: the lookup comes first; a negative count is
  numpy's \<open>ValueError\<close>.\<close>

definition gen_constant :: "int \<Rightarrow> kwargs \<Rightarrow> 'g \<Rightarrow> (error + real list) \<times> 'g" where
  "gen_constant count kw g =
     (case dict_get kw ''constant'' of
        None \<Rightarrow> (Inl (KeyError ''constant''), g)
      | Some c \<Rightarrow>
          (if count < 0 then (Inl (ValueError ''negative dimensions are not allowed''), g)
           else (Inr (replicate (nat count) c), g)))"

definition gen_normal ::
  "'g sampling \<Rightarrow> int \<Rightarrow> kwargs \<Rightarrow> 'g \<Rightarrow> (error + real list) \<times> 'g" where
  "gen_normal lib count kw g =
     (case dict_get kw ''mean'' of
        None \<Rightarrow> (Inl (KeyError ''mean''), g)
      | Some mean \<Rightarrow>
     (case dict_get kw ''stdev'' of
        None \<Rightarrow> (Inl (KeyError ''stdev''), g)
      | Some stdev \<Rightarrow> norm_rvs lib mean stdev count g))"

definition gen_pert ::
  "'g sampling \<Rightarrow> int \<Rightarrow> kwargs \<Rightarrow> 'g \<Rightarrow> (error + real list) \<times> 'g" where
  "gen_pert lib count kw g =
     (case check_pert kw of
        Inl e \<Rightarrow> (Inl e, g)
      | Inr _ \<Rightarrow> pert_random_variates lib kw count g)"

text \<open>Calling the function object that \<open>_determine_func\<close> returned.\<close>

fun call_func ::
  "gen_func \<Rightarrow> 'g sampling \<Rightarrow> int \<Rightarrow> kwargs \<Rightarrow> 'g \<Rightarrow> (error + real list) \<times> 'g" where
  "call_func Gen_constant lib count kw g = gen_constant count kw g"
| "call_func Gen_pert lib count kw g = gen_pert lib count kw g"
| "call_func Gen_normal lib count kw g = gen_normal lib count kw g"
| "call_func Gen_bernoulli lib count kw g = gen_bernoulli lib count kw g"

text \<open>\<open>np.clip(results, a_min, a_max)\<close>.\<close>

definition clip :: "real list \<Rightarrow> real \<Rightarrow> real \<Rightarrow> real list" where
  "clip results a_min a_max = map (\<lambda>x. min (max x a_min) a_max) results"

section \<open>Single requests\<close>

definition generate_single ::
  "'g sampling \<Rightarrow> string \<Rightarrow> int \<Rightarrow> kwargs \<Rightarrow> 'g \<Rightarrow> (error + real list) \<times> 'g" where
  "generate_single lib target count kw g =
     (case (if target \<in> set le_1_targets then check_le_1 target kw else Inr ()) of
        Inl e \<Rightarrow> (Inl e, g)
      | Inr _ \<Rightarrow>
          (case (if target \<in> set bernoulli_targets then gen_bernoulli lib count kw g
                 else (case determine_func kw of
                         Inl e \<Rightarrow> (Inl e, g)
                       | Inr func \<Rightarrow>
                           (case check_parameters func kw of
                              Inl e \<Rightarrow> (Inl e, g)
                            | Inr _ \<Rightarrow> call_func func lib count kw g))) of
             (Inl e, g') \<Rightarrow> (Inl e, g')
           | (Inr results, g') \<Rightarrow>
               (Inr (if target \<in> set le_1_targets then clip results 0 1 else results), g')))"

text \<open>The copy of \<open>kwargs\<close> that \<open>generate\<close> stores: \<open>gamma = 4\<close> is inserted when \<open>low\<close> is a
  key and \<open>gamma\<close> is not.\<close>

definition stored_kwargs :: "kwargs \<Rightarrow> kwargs" where
  "stored_kwargs kw =
     (if ''low'' \<in> set (dict_keys kw) \<and> ''gamma'' \<notin> set (dict_keys kw)
      then dict_set kw ''gamma'' 4 else kw)"

text \<open>\<open>generate\<close>: the store is written after \<open>_generate_single\<close> has returned.\<close>

definition generate ::
  "'g sampling \<Rightarrow> supplied_values \<Rightarrow> string \<Rightarrow> int \<Rightarrow> kwargs \<Rightarrow> 'g
     \<Rightarrow> (error + real list) \<times> supplied_values \<times> 'g" where
  "generate lib sv target count kw g =
     (case generate_single lib target count kw g of
        (Inl e, g') \<Rightarrow> (Inl e, sv, g')
      | (Inr result, g') \<Rightarrow> (Inr result, dict_set sv target (Params (stored_kwargs kw)), g'))"

section \<open>Combined requests\<close>

subsection \<open>The pandas operations used by \<open>generate_multi\<close>\<close>

text \<open>
  A \<open>DataFrame\<close> whose index is \<open>0 .. nrows - 1\<close> (every \<open>pd.Series(data)\<close> here has that
  default index) and whose cells are numbers or missing (\<open>None\<close> is pandas' \<open>NaN\<close>).
\<close>

record dataframe =
  nrows :: nat
  columns :: "(string \<times> real option list) list"

definition empty_dataframe :: dataframe where
  "empty_dataframe = \<lparr>nrows = 0, columns = []\<rparr>"

text \<open>Reading a column at the labels \<open>0 .. n - 1\<close>: a label the column lacks is missing.\<close>

definition cell_at :: "real option list \<Rightarrow> nat \<Rightarrow> real option" where
  "cell_at xs i = (if i < length xs then xs ! i else None)"

definition reindex :: "nat \<Rightarrow> real option list \<Rightarrow> real option list" where
  "reindex n xs = map (cell_at xs) [0..<n]"

text \<open>\<open>df[column] = s\<close>: a frame with an empty index takes the index of the series; the
  series is then aligned to the index of the frame.\<close>

definition set_column :: "dataframe \<Rightarrow> string \<Rightarrow> real list \<Rightarrow> dataframe" where
  "set_column df column s =
     (let n = (if nrows df = 0 then length s else nrows df);
          old = map (\<lambda>(c, xs). (c, reindex n xs)) (columns df)
      in \<lparr>nrows = n, columns = dict_set old column (reindex n (map Some s))\<rparr>)"

text \<open>\<open>df1 * df2\<close>: both frames are aligned on the union of their row labels and of their
  column labels, and a cell is the product where both operands are present. (pandas
  sorts the united column labels; the row sums taken below do not depend on their order.)\<close>

definition mul_cell :: "dataframe \<Rightarrow> dataframe \<Rightarrow> string \<Rightarrow> nat \<Rightarrow> real option" where
  "mul_cell df1 df2 c i =
     (case (dict_get (columns df1) c, dict_get (columns df2) c) of
        (Some xs, Some ys) \<Rightarrow>
          (case (cell_at xs i, cell_at ys i) of
             (Some x, Some y) \<Rightarrow> Some (x * y)
           | _ \<Rightarrow> None)
      | _ \<Rightarrow> None)"

definition df_mul :: "dataframe \<Rightarrow> dataframe \<Rightarrow> dataframe" where
  "df_mul df1 df2 =
     (let n = max (nrows df1) (nrows df2);
          names = remdups (dict_keys (columns df1) @ dict_keys (columns df2))
      in \<lparr>nrows = n, columns = map (\<lambda>c. (c, map (mul_cell df1 df2 c) [0..<n])) names\<rparr>)"

text \<open>\<open>df.sum(axis=1)\<close>: per row, the sum of the cells that are present (\<open>0\<close> when none is).\<close>

definition sum_axis1 :: "dataframe \<Rightarrow> real list" where
  "sum_axis1 df =
     map (\<lambda>i. sum_list (map (\<lambda>(c, xs). case cell_at xs i of Some x \<Rightarrow> x | None \<Rightarrow> 0) (columns df)))
       [0..<nrows df]"

text \<open>\<open>str.lstrip(chars)\<close> removes leading characters as long as they occur in \<open>chars\<close>.\<close>

definition lstrip :: "string \<Rightarrow> string \<Rightarrow> string" where
  "lstrip chars s = dropWhile (\<lambda>c. c \<in> set chars) s"

subsection \<open>\<open>generate_multi\<close>\<close>

text \<open>The inner loop: one generated column after the other is put into the frame of the
  target. An exception leaves the loop.\<close>

fun gen_columns ::
  "'g sampling \<Rightarrow> string \<Rightarrow> int \<Rightarrow> (string \<times> kwargs) list \<Rightarrow> dataframe \<Rightarrow> 'g
     \<Rightarrow> (error + dataframe) \<times> 'g" where
  "gen_columns lib target count [] df g = (Inr df, g)"
| "gen_columns lib target count ((column, params) # column_dict) df g =
     (case generate_single lib target count params g of
        (Inl e, g') \<Rightarrow> (Inl e, g')
      | (Inr data, g') \<Rightarrow> gen_columns lib target count column_dict (set_column df column data) g')"

text \<open>The outer loop over \<open>kwargs_dict.items()\<close>; the keys of a dictionary are distinct, so
  each target fills the empty frame that \<open>df_dict\<close> holds for it.\<close>

fun gen_frames ::
  "'g sampling \<Rightarrow> int \<Rightarrow> nested_kwargs \<Rightarrow> 'g \<Rightarrow> (error + (string \<times> dataframe) list) \<times> 'g" where
  "gen_frames lib count [] g = (Inr [], g)"
| "gen_frames lib count ((target, column_dict) # kwargs_dict) g =
     (case gen_columns lib target count column_dict empty_dataframe g of
        (Inl e, g') \<Rightarrow> (Inl e, g')
      | (Inr df, g') \<Rightarrow>
          (case gen_frames lib count kwargs_dict g' of
             (Inl e, g'') \<Rightarrow> (Inl e, g'')
           | (Inr df_dict, g'') \<Rightarrow> (Inr ((target, df) # df_dict), g'')))"

text \<open>\<open>df1, df2 = df_dict.values()\<close> raises \<open>ValueError\<close> unless there are two values.\<close>

definition generate_multi ::
  "'g sampling \<Rightarrow> supplied_values \<Rightarrow> string \<Rightarrow> int \<Rightarrow> nested_kwargs \<Rightarrow> 'g
     \<Rightarrow> (error + real list) \<times> supplied_values \<times> 'g" where
  "generate_multi lib sv prefixed_target count kwargs_dict g =
     (let final_target = lstrip ''multi_'' prefixed_target in
      case gen_frames lib count kwargs_dict g of
        (Inl e, g') \<Rightarrow> (Inl e, sv, g')
      | (Inr df_dict, g') \<Rightarrow>
          (case map snd df_dict of
             [df1, df2] \<Rightarrow>
               (let combined_df = df_mul df1 df2;
                    summed = sum_axis1 combined_df;
                    new_target = ''multi_'' @ final_target
                in (Inr summed, dict_set sv new_target (Nested kwargs_dict), g'))
           | vs \<Rightarrow>
               (Inl (ValueError (if length vs < 2 then ''not enough values to unpack''
                                 else ''too many values to unpack'')), sv, g')))"

section \<open>A concrete sampling library for examples\<close>

text \<open>
  A deterministic stand-in for the libraries, with a counter as generator state. It is
  used only to evaluate the definitions at concrete inputs; every general theorem below
  holds for all libraries.
\<close>

definition example_lib :: "nat sampling" where
  "example_lib =
     \<lparr>bernoulli_rvs = (\<lambda>kw count g.
        (case dict_get kw ''p'' of
           None \<Rightarrow> (Inl (TypeError ''missing argument p''), g)
         | Some p \<Rightarrow>
             (if count < 0 then (Inl (ValueError ''negative dimensions are not allowed''), g)
              else (Inr (map (\<lambda>i. if even (g + i) then 1 else 0) [0..<nat count]), g + nat count)))),
      norm_rvs = (\<lambda>loc scale count g.
        (if count < 0 then (Inl (ValueError ''negative dimensions are not allowed''), g)
         else (Inr (map (\<lambda>i. loc + scale * (real (g + i) - 1)) [0..<nat count]), g + nat count))),
      pert_random_variates = (\<lambda>kw count g.
        (case dict_get kw ''mode'' of
           None \<Rightarrow> (Inl (TypeError ''missing argument mode''), g)
         | Some mode \<Rightarrow>
             (if count < 0 then (Inl (ValueError ''negative dimensions are not allowed''), g)
              else (Inr (replicate (nat count) mode), g + nat count))))\<rparr>"

section \<open>The contract of the sampling libraries\<close>

text \<open>A library call that returns, returns exactly \<open>count\<close> samples.\<close>

definition returns_count :: "'g sampling \<Rightarrow> bool" where
  "returns_count lib \<longleftrightarrow>
     (\<forall>kw n g xs g'. bernoulli_rvs lib kw n g = (Inr xs, g') \<longrightarrow> int (length xs) = n) \<and>
     (\<forall>loc scale n g xs g'. norm_rvs lib loc scale n g = (Inr xs, g') \<longrightarrow> int (length xs) = n) \<and>
     (\<forall>kw n g xs g'. pert_random_variates lib kw n g = (Inr xs, g') \<longrightarrow> int (length xs) = n)"

section \<open>Basic facts\<close>

subsection \<open>Dictionaries\<close>

lemma dict_get_dict_set:
  "dict_get (dict_set d k v) k' = (if k' = k then Some v else dict_get d k')"
  by (induction d) (auto simp: dict_get_def)

lemma dict_keys_dict_set:
  "dict_keys (dict_set d k v) = (if k \<in> set (dict_keys d) then dict_keys d else dict_keys d @ [k])"
  by (induction d) (force simp: dict_keys_def)+

lemma dict_keys_set_dict_set:
  "set (dict_keys (dict_set d k v)) = insert k (set (dict_keys d))"
  by (auto simp: dict_keys_dict_set)

lemma dict_set_new_key:
  "k \<notin> set (dict_keys d) \<Longrightarrow> dict_set d k v = d @ [(k, v)]"
  by (induction d) (auto simp: dict_keys_def)

lemma dict_set_not_Nil: "dict_set d k v \<noteq> []"
  by (cases d) (auto split: if_splits)

lemma dict_get_None_iff: "dict_get d k = None \<longleftrightarrow> k \<notin> set (dict_keys d)"
  by (simp add: dict_get_def dict_keys_def map_of_eq_None_iff)

lemma dict_get_Some_if_key:
  "k \<in> set (dict_keys d) \<Longrightarrow> \<exists>v. dict_get d k = Some v"
  using dict_get_None_iff[of d k] by (cases "dict_get d k") simp_all

subsection \<open>The checks as searches for the first offending item\<close>

lemma check_less_than_zero_find:
  "check_less_than_zero kw =
     (case find (\<lambda>(k, v). keyword_is_relevant k \<and> v < 0) kw of
        None \<Rightarrow> Inr ()
      | Some (k, v) \<Rightarrow> Inl (FairException (NegativeValue k)))"
  by (induction kw rule: check_less_than_zero.induct) simp_all

lemma check_required_find:
  "check_required f rs kw =
     (case find (\<lambda>r. r \<notin> set (dict_keys kw)) rs of
        None \<Rightarrow> Inr ()
      | Some r \<Rightarrow> Inl (FairException (MissingKeyword f r)))"
  by (induction rs) auto

lemma check_le_1_find:
  assumes "target \<in> set le_1_targets"
  shows "check_le_1 target kw =
     (case find (\<lambda>(key, v). key \<noteq> ''stdev'' \<and> \<not> (0 \<le> v \<and> v \<le> 1)) kw of
        None \<Rightarrow> Inr ()
      | Some (key, v) \<Rightarrow> Inl (FairException (OutOfRange target key)))"
  using assms by (induction target kw rule: check_le_1.induct) simp_all

lemma bernoulli_targets_bounded:
  "target \<notin> set le_1_targets \<Longrightarrow> target \<notin> set bernoulli_targets"
  by (auto simp: le_1_targets_def bernoulli_targets_def)

lemma determine_func_mixed:
  "determine_func [(''constant'', c), (''mean'', m)] =
     Inl (FairException (MixedKeyword [''constant'', ''mean'']))"
  by (simp add: determine_func_def dict_keys_def dict_get_def parameter_map_def)

lemma determine_func_constant: "determine_func [(''constant'', c)] = Inr Gen_constant"
  by (simp add: determine_func_def dict_keys_def dict_get_def parameter_map_def)

subsection \<open>Results of \<open>generate\<close> and \<open>generate_multi\<close>\<close>

lemma clip_bounds: "x \<in> set (clip xs 0 1) \<Longrightarrow> 0 \<le> x \<and> x \<le> 1"
  by (auto simp: clip_def)

lemma generate_single_clipped:
  assumes "target \<in> set le_1_targets"
    and "generate_single lib target count kw g = (Inr xs, g')"
  shows "\<exists>ys. xs = clip ys 0 1"
  using assms by (auto simp: generate_single_def split: sum.splits prod.splits if_splits)

lemma generate_Inr:
  assumes "generate lib sv target count kw g = (Inr r, sv', g')"
  shows "generate_single lib target count kw g = (Inr r, g')"
    and "sv' = dict_set sv target (Params (stored_kwargs kw))"
  using assms by (auto simp: generate_def split: sum.splits prod.splits)

lemma generate_Inl:
  assumes "generate lib sv target count kw g = (Inl e, sv', g')"
  shows "generate_single lib target count kw g = (Inl e, g')" and "sv' = sv"
  using assms by (auto simp: generate_def split: sum.splits prod.splits)

lemma generate_multi_Inl:
  assumes "generate_multi lib sv prefixed_target count kwargs_dict g = (Inl e, sv', g')"
  shows "sv' = sv"
  using assms
  by (auto simp: generate_multi_def Let_def split: sum.splits prod.splits list.splits)

lemma generate_multi_Inr:
  assumes "generate_multi lib sv prefixed_target count kwargs_dict g = (Inr r, sv', g')"
  shows "sv' = dict_set sv (''multi_'' @ lstrip ''multi_'' prefixed_target) (Nested kwargs_dict)"
  using assms
  by (auto simp: generate_multi_def Let_def split: sum.splits prod.splits list.splits)

text \<open>For a target that is not Bernoulli-only, \<open>_generate_single\<close> as a cascade of the
  searches for the first offending item.\<close>

lemma generate_single_staged:
  assumes "target \<notin> set bernoulli_targets"
  shows "generate_single lib target count kw g =
     (case (if target \<in> set le_1_targets
            then find (\<lambda>(key, v). key \<noteq> ''stdev'' \<and> \<not> (0 \<le> v \<and> v \<le> 1)) kw else None) of
        Some (key, v) \<Rightarrow> (Inl (FairException (OutOfRange target key)), g)
      | None \<Rightarrow>
     (case determine_func kw of
        Inl e \<Rightarrow> (Inl e, g)
      | Inr f \<Rightarrow>
     (case find (\<lambda>(k, v). keyword_is_relevant k \<and> v < 0) kw of
        Some (k, v) \<Rightarrow> (Inl (FairException (NegativeValue k)), g)
      | None \<Rightarrow>
     (case find (\<lambda>r. r \<notin> set (dict_keys kw)) (required_keywords f) of
        Some r \<Rightarrow> (Inl (FairException (MissingKeyword f r)), g)
      | None \<Rightarrow>
     (case call_func f lib count kw g of
        (Inl e, g') \<Rightarrow> (Inl e, g')
      | (Inr results, g') \<Rightarrow>
          (Inr (if target \<in> set le_1_targets then clip results 0 1 else results), g'))))))"
  using assms
  by (simp add: generate_single_def check_le_1_find check_parameters_def
      check_less_than_zero_find check_required_find
      split: option.splits sum.splits prod.splits)

subsection \<open>Lengths of samples and shapes of frames\<close>

lemma returns_countD:
  assumes "returns_count lib"
  shows "bernoulli_rvs lib kw n g = (Inr xs, g') \<Longrightarrow> int (length xs) = n"
    and "norm_rvs lib loc scale n g = (Inr xs, g') \<Longrightarrow> int (length xs) = n"
    and "pert_random_variates lib kw n g = (Inr xs, g') \<Longrightarrow> int (length xs) = n"
  using assms unfolding returns_count_def by blast+

lemma returns_count_example_lib: "returns_count example_lib"
  by (auto simp: returns_count_def example_lib_def split: option.splits if_splits)

lemma generate_single_length:
  assumes "returns_count lib" and "generate_single lib target n kw g = (Inr xs, g')"
  shows "int (length xs) = n"
proof -
  have call: "int (length ys) = n" if "call_func f lib n kw g = (Inr ys, g1)" for f ys g1
    using that
    by (cases f)
      (auto simp: gen_constant_def gen_normal_def gen_pert_def gen_bernoulli_def
        split: option.splits if_splits sum.splits dest: returns_countD[OF assms(1)])
  have bern: "int (length ys) = n" if "gen_bernoulli lib n kw g = (Inr ys, g1)" for ys g1
    using that by (auto simp: gen_bernoulli_def dest: returns_countD[OF assms(1)])
  from assms(2) show ?thesis
    by (auto simp: generate_single_def clip_def split: sum.splits prod.splits if_splits
        dest: call bern)
qed

lemma set_column_shape:
  assumes "nrows df = (if columns df = [] then 0 else n)" and "length s = n"
  shows "nrows (set_column df c s) = n"
    and "columns (set_column df c s) \<noteq> []"
    and "set (dict_keys (columns (set_column df c s))) = insert c (set (dict_keys (columns df)))"
proof -
  show "nrows (set_column df c s) = n"
    using assms by (simp add: set_column_def Let_def)
  show "columns (set_column df c s) \<noteq> []"
    by (simp add: set_column_def Let_def dict_set_not_Nil)
  have "dict_keys (map (\<lambda>(c, xs). (c, reindex m xs)) (columns df)) = dict_keys (columns df)" for m
    by (induction "columns df") (auto simp: dict_keys_def)
  then show "set (dict_keys (columns (set_column df c s))) = insert c (set (dict_keys (columns df)))"
    by (simp add: set_column_def Let_def dict_keys_set_dict_set)
qed

lemma gen_columns_shape:
  assumes "returns_count lib"
    and "gen_columns lib target count cols df g = (Inr df', g')"
    and "nrows df = (if columns df = [] then 0 else nat count)"
  shows "nrows df' = (if columns df' = [] then 0 else nat count) \<and>
         set (dict_keys (columns df')) = set (dict_keys (columns df)) \<union> set (dict_keys cols)"
  using assms(2,3)
proof (induction cols arbitrary: df g)
  case Nil
  then show ?case by (simp add: dict_keys_def)
next
  case (Cons a cols)
  obtain column params where a: "a = (column, params)" by (cases a)
  from Cons.prems(1) a obtain data g1 where
    single: "generate_single lib target count params g = (Inr data, g1)" and
    rest: "gen_columns lib target count cols (set_column df column data) g1 = (Inr df', g')"
    by (auto split: sum.splits prod.splits)
  from generate_single_length[OF assms(1) single] have len: "length data = nat count"
    by simp
  note sc = set_column_shape[OF Cons.prems(2) len, of column]
  have "nrows (set_column df column data)
          = (if columns (set_column df column data) = [] then 0 else nat count)"
    using sc(1,2) by simp
  from Cons.IH[OF rest this] show ?case
    using sc(3) a by (auto simp: dict_keys_def)
qed

lemma mul_cell_disjoint:
  assumes "set (dict_keys (columns df1)) \<inter> set (dict_keys (columns df2)) = {}"
  shows "mul_cell df1 df2 c i = None"
proof (cases "c \<in> set (dict_keys (columns df1))")
  case True
  with assms have "c \<notin> set (dict_keys (columns df2))" by blast
  then have "dict_get (columns df2) c = None" by (simp add: dict_get_None_iff)
  then show ?thesis by (simp add: mul_cell_def split: option.splits)
next
  case False
  then have "dict_get (columns df1) c = None" by (simp add: dict_get_None_iff)
  then show ?thesis by (simp add: mul_cell_def)
qed

lemma sum_axis1_disjoint:
  assumes "set (dict_keys (columns df1)) \<inter> set (dict_keys (columns df2)) = {}"
  shows "sum_axis1 (df_mul df1 df2) = replicate (max (nrows df1) (nrows df2)) 0"
proof -
  let ?n = "max (nrows df1) (nrows df2)"
  have cell: "cell_at (map (mul_cell df1 df2 c) [0..<?n]) i = None" for c i
    by (simp add: cell_at_def mul_cell_disjoint[OF assms])
  have "sum_axis1 (df_mul df1 df2) = map (\<lambda>i. 0) [0..<?n]"
    by (simp add: sum_axis1_def df_mul_def Let_def comp_def cell)
  then show ?thesis by (simp add: map_replicate_const)
qed

lemma gen_frames_two:
  assumes "gen_frames lib count [(t1, cols1), (t2, cols2)] g = (Inr df_dict, g')"
  shows "\<exists>df1 df2 g1. gen_columns lib t1 count cols1 empty_dataframe g = (Inr df1, g1) \<and>
           gen_columns lib t2 count cols2 empty_dataframe g1 = (Inr df2, g') \<and>
           df_dict = [(t1, df1), (t2, df2)]"
  using assms by (auto split: sum.splits prod.splits)

lemma gen_frames_length:
  "gen_frames lib count kwargs_dict g = (Inr df_dict, g') \<Longrightarrow>
     length df_dict = length kwargs_dict"
  by (induction kwargs_dict arbitrary: df_dict g) (auto split: sum.splits prod.splits)

section \<open>Samples for bounded targets\<close>

text \<open>
  C1. For a target in \<open>_le_1_targets\<close>, every sample that \<open>_generate_single\<close> returns (hence
  every column generated inside \<open>generate_multi\<close>), and every sample that \<open>generate\<close>
  returns, lies in the closed interval from 0 to 1, whichever sampler produced it: the
  result is clipped after sampling.
\<close>

theorem bounded_target_samples_in_unit_interval:
  assumes "target \<in> set le_1_targets"
  shows "(generate_single lib target count kw g = (Inr xs, g') \<longrightarrow>
            (\<forall>x\<in>set xs. 0 \<le> x \<and> x \<le> 1)) \<and>
         (generate lib sv target count kw g = (Inr ys, sv', g'') \<longrightarrow>
            (\<forall>y\<in>set ys. 0 \<le> y \<and> y \<le> 1))"
proof (intro conjI impI)
  assume "generate_single lib target count kw g = (Inr xs, g')"
  from generate_single_clipped[OF assms this] obtain zs where "xs = clip zs 0 1" ..
  then show "\<forall>x\<in>set xs. 0 \<le> x \<and> x \<le> 1"
    using clip_bounds by blast
next
  assume "generate lib sv target count kw g = (Inr ys, sv', g'')"
  then have "generate_single lib target count kw g = (Inr ys, g'')"
    by (rule generate_Inr)
  from generate_single_clipped[OF assms this] obtain zs where "ys = clip zs 0 1" ..
  then show "\<forall>y\<in>set ys. 0 \<le> y \<and> y \<le> 1"
    using clip_bounds by blast
qed

text \<open>The example library draws \<open>-3/2, 1/2, 5/2\<close> for mean \<open>1/2\<close> and deviation \<open>2\<close>; for the
  bounded target \<open>Action\<close> the samples come back clipped.\<close>

theorem bounded_target_samples_in_unit_interval_witness:
  "''Action'' \<in> set le_1_targets \<and>
   generate_single example_lib ''Action'' 3 [(''mean'', 1/2), (''stdev'', 2)] 0
     = (Inr [0, 1/2, 1], 3) \<and>
   generate example_lib [] ''Action'' 3 [(''mean'', 1/2), (''stdev'', 2)] 0
     = (Inr [0, 1/2, 1], [(''Action'', Params [(''mean'', 1/2), (''stdev'', 2)])], 3) \<and>
   list_all (\<lambda>x. 0 \<le> x \<and> x \<le> 1) [0, 1/2, 1 :: real]"
proof -
  have t: "''Action'' \<in> set le_1_targets"
    by (simp add: le_1_targets_def)
  have s: "generate_single example_lib ''Action'' 3 [(''mean'', 1/2), (''stdev'', 2)] 0
             = (Inr [0, 1/2, 1], 3)"
    by code_simp
  have m: "generate example_lib [] ''Action'' 3 [(''mean'', 1/2), (''stdev'', 2)] 0
             = (Inr [0, 1/2, 1], [(''Action'', Params [(''mean'', 1/2), (''stdev'', 2)])], 3)"
    by code_simp
  have "\<forall>x\<in>set [0, 1/2, 1 :: real]. 0 \<le> x \<and> x \<le> 1"
    by (rule bounded_target_samples_in_unit_interval[OF t, THEN conjunct1, THEN mp, OF s])
  then have "list_all (\<lambda>x. 0 \<le> x \<and> x \<le> 1) [0, 1/2, 1 :: real]"
    by (simp only: list_all_iff)
  with t s m show ?thesis by simp
qed

section \<open>Mixed keywords\<close>

text \<open>
  C2, as the specification states it: \<open>generate\<close> with \<open>constant = 5, mean = 2\<close> raises the
  mixed-keyword error for every target, also for \<open>Vulnerability\<close>. For \<open>Vulnerability\<close> the
  check of the bounded range runs first and raises its own error.
\<close>

theorem mixed_keywords_counterexample:
  "generate example_lib [] ''Vulnerability'' 10 [(''constant'', 5), (''mean'', 2)] 0 =
     (Inl (FairException (OutOfRange ''Vulnerability'' ''constant'')), [], 0)"
  by code_simp

text \<open>
  C2, amended. \<open>generate\<close> with \<open>constant = 5, mean = 2\<close> fails for every target and every
  count, and leaves the store as it was: with the mixed-keyword error when the target is
  not in \<open>_le_1_targets\<close>, and with the out-of-range error for \<open>constant\<close> when it is (this
  includes the Bernoulli-only target).
\<close>

theorem mixed_keywords_after_bounded_check:
  "generate lib sv target count [(''constant'', 5), (''mean'', 2)] g =
     (Inl (FairException
        (if target \<in> set le_1_targets then OutOfRange target ''constant''
         else MixedKeyword [''constant'', ''mean''])), sv, g)"
proof (cases "target \<in> set le_1_targets")
  case True
  then have "generate_single lib target count [(''constant'', 5), (''mean'', 2)] g
               = (Inl (FairException (OutOfRange target ''constant'')), g)"
    by (simp add: generate_single_def)
  with True show ?thesis by (simp add: generate_def)
next
  case False
  then have "generate_single lib target count [(''constant'', 5), (''mean'', 2)] g
               = (Inl (FairException (MixedKeyword [''constant'', ''mean''])), g)"
    by (simp add: generate_single_def bernoulli_targets_bounded determine_func_mixed)
  with False show ?thesis by (simp add: generate_def)
qed

theorem mixed_keywords_after_bounded_check_witness:
  "generate example_lib [] ''Loss Event Frequency'' 10 [(''constant'', 5), (''mean'', 2)] 0 =
     (Inl (FairException (MixedKeyword [''constant'', ''mean''])), [], 0)"
  using mixed_keywords_after_bounded_check[of example_lib "[]" "''Loss Event Frequency''" 10 0]
  by (simp add: le_1_targets_def)

section \<open>Number of sub-targets\<close>

text \<open>
  C3, as the specification states it: a nested dictionary with one or three entries makes
  \<open>generate_multi\<close> fail with a \<open>FairException\<close> for the invalid combination. With one entry
  the unpacking \<open>df1, df2 = df_dict.values()\<close> raises Python's \<open>ValueError\<close>.
\<close>

theorem one_sub_target_counterexample:
  "generate_multi example_lib [] ''multi_Loss'' 3
     [(''Loss Magnitude'', [(''a'', [(''constant'', 1)])])] 0 =
     (Inl (ValueError ''not enough values to unpack''), [], 0)"
  by code_simp

text \<open>
  C3, amended. When the nested dictionary does not have exactly two entries,
  \<open>generate_multi\<close> fails and leaves the store as it was: with the error of the first
  column that fails to generate, if there is one, and otherwise with the \<open>ValueError\<close>
  of the unpacking (not enough values below two entries, too many above).
\<close>

theorem other_than_two_sub_targets_value_error:
  assumes "length kwargs_dict \<noteq> 2"
  shows "generate_multi lib sv prefixed_target count kwargs_dict g =
           (case gen_frames lib count kwargs_dict g of
              (Inl e, g') \<Rightarrow> (Inl e, sv, g')
            | (Inr df_dict, g') \<Rightarrow>
                (Inl (ValueError (if length kwargs_dict < 2 then ''not enough values to unpack''
                                  else ''too many values to unpack'')), sv, g'))"
proof (cases "gen_frames lib count kwargs_dict g")
  case (Pair r g')
  show ?thesis
  proof (cases r)
    case (Inl e)
    with Pair show ?thesis by (simp add: generate_multi_def)
  next
    case (Inr df_dict)
    with Pair have "length df_dict = length kwargs_dict"
      by (simp add: gen_frames_length)
    with assms Pair Inr show ?thesis
      by (auto simp: generate_multi_def split: list.splits)
  qed
qed

theorem other_than_two_sub_targets_value_error_witness:
  "length [(''A'', [(''a'', [(''constant'', 1 :: real)])]), (''B'', []), (''C'', [])] \<noteq> 2 \<and>
   generate_multi example_lib [] ''multi_Loss'' 3
     [(''A'', [(''a'', [(''constant'', 1)])]), (''B'', []), (''C'', [])] 0 =
     (Inl (ValueError ''too many values to unpack''), [], 0)"
proof -
  let ?k = "[(''A'', [(''a'', [(''constant'', 1 :: real)])]), (''B'', []), (''C'', [])]"
  have n: "length ?k \<noteq> 2" by simp
  have f: "gen_frames example_lib 3 ?k 0 =
             (Inr [(''A'', \<lparr>nrows = 3, columns = [(''a'', [Some 1, Some 1, Some 1])]\<rparr>),
                   (''B'', empty_dataframe), (''C'', empty_dataframe)], 0)"
    by code_simp
  from other_than_two_sub_targets_value_error[OF n, of example_lib "[]" "''multi_Loss''" 3 0] f n
  show ?thesis by simp
qed

section \<open>The key of a combined request\<close>

text \<open>
  C4. The specification has the nested dictionary stored under \<open>multi_\<close> followed by the
  target without its literal prefix \<open>multi_\<close>, so that \<open>multi_impact\<close> is stored under
  \<open>multi_impact\<close>. The source strips with \<open>lstrip('multi_')\<close>, which removes every leading
  character out of \<open>m, u, l, t, i, _\<close>: after the prefix it also removes the \<open>i\<close> and the
  \<open>m\<close> of \<open>impact\<close>, and the key is \<open>multi_pact\<close>. (The dictionary itself is stored as
  given.)
\<close>

theorem multi_impact_stored_as_multi_pact:
  "generate_multi example_lib [] ''multi_impact'' 2
     [(''Loss Event Frequency'', [(''a'', [(''constant'', 1)])]),
      (''Loss Magnitude'', [(''a'', [(''constant'', 1)])])] 0 =
     (Inr [1, 1],
      [(''multi_pact'',
        Nested [(''Loss Event Frequency'', [(''a'', [(''constant'', 1)])]),
                (''Loss Magnitude'', [(''a'', [(''constant'', 1)])])])],
      0)"
  by code_simp

section \<open>The stored default of \<open>gamma\<close>\<close>

text \<open>
  C5. When \<open>generate\<close> succeeds for keyword arguments that have \<open>low\<close> and lack \<open>gamma\<close>,
  the entry stored for the target is the keyword arguments followed by \<open>gamma = 4\<close>,
  while the samples returned are those of \<open>_generate_single\<close> on the keyword arguments as
  supplied.
\<close>

theorem stored_gamma_default:
  assumes "generate lib sv target count kw g = (Inr result, sv', g')"
    and "''low'' \<in> set (dict_keys kw)"
    and "''gamma'' \<notin> set (dict_keys kw)"
  shows "dict_get sv' target = Some (Params (kw @ [(''gamma'', 4)])) \<and>
         dict_get (kw @ [(''gamma'', 4)]) ''gamma'' = Some 4 \<and>
         generate_single lib target count kw g = (Inr result, g')"
proof -
  have "stored_kwargs kw = kw @ [(''gamma'', 4)]"
    using assms(2,3) by (simp add: stored_kwargs_def dict_set_new_key)
  moreover have "dict_get (kw @ [(''gamma'', 4)]) ''gamma'' = Some 4"
    using dict_get_dict_set[of kw "''gamma''" 4 "''gamma''"] assms(3)
    by (simp add: dict_set_new_key)
  ultimately show ?thesis
    using generate_Inr[OF assms(1)] by (simp add: dict_get_dict_set)
qed

theorem stored_gamma_default_witness:
  "generate example_lib [] ''Loss Event Frequency'' 3 [(''low'', 1), (''mode'', 2), (''high'', 3)] 0 =
     (Inr [2, 2, 2],
      [(''Loss Event Frequency'',
        Params [(''low'', 1), (''mode'', 2), (''high'', 3), (''gamma'', 4)])],
      3) \<and>
   dict_get [(''low'', 1), (''mode'', 2), (''high'', 3), (''gamma'', 4 :: real)] ''gamma'' = Some 4 \<and>
   generate_single example_lib ''Loss Event Frequency'' 3
     [(''low'', 1), (''mode'', 2), (''high'', 3)] 0 = (Inr [2, 2, 2], 3)"
proof -
  let ?kw = "[(''low'', 1), (''mode'', 2), (''high'', 3 :: real)]"
  have g: "generate example_lib [] ''Loss Event Frequency'' 3 ?kw 0 =
     (Inr [2, 2, 2],
      [(''Loss Event Frequency'',
        Params [(''low'', 1), (''mode'', 2), (''high'', 3), (''gamma'', 4)])],
      3)"
    by code_simp
  have l: "''low'' \<in> set (dict_keys ?kw)" by (simp add: dict_keys_def)
  have n: "''gamma'' \<notin> set (dict_keys ?kw)" by (simp add: dict_keys_def)
  from stored_gamma_default[OF g l n] g show ?thesis by simp
qed

section \<open>Writes to the store\<close>

text \<open>
  C6. The store changes only when a call succeeds. After a call of \<open>generate\<close> or of
  \<open>generate_multi\<close> that raises, the store is the one before the call. When \<open>generate\<close>
  succeeds twice for one target, the second call replaces the entry of the first: the
  keys of the store stay as they were and the target maps to the keyword arguments
  stored by the second call. The same holds for two successful calls of
  \<open>generate_multi\<close> with one prefixed target.
\<close>

theorem store_written_only_on_success:
  "(generate lib sv target count kw g = (Inl e, sv', g') \<longrightarrow> sv' = sv) \<and>
   (generate_multi lib sv prefixed_target count kwargs_dict g = (Inl e, sv', g') \<longrightarrow> sv' = sv) \<and>
   (generate lib sv target count kw g = (Inr r1, sv1, g1) \<and>
    generate lib sv1 target count2 kw2 g1 = (Inr r2, sv2, g2) \<longrightarrow>
      dict_keys sv2 = dict_keys sv1 \<and> dict_get sv2 target = Some (Params (stored_kwargs kw2))) \<and>
   (generate_multi lib sv prefixed_target count kwargs_dict g = (Inr r3, sv3, g3) \<and>
    generate_multi lib sv3 prefixed_target count2 kwargs_dict2 g3 = (Inr r4, sv4, g4) \<longrightarrow>
      dict_keys sv4 = dict_keys sv3 \<and>
      dict_get sv4 (''multi_'' @ lstrip ''multi_'' prefixed_target) = Some (Nested kwargs_dict2))"
proof (intro conjI impI)
  assume "generate lib sv target count kw g = (Inl e, sv', g')"
  then show "sv' = sv" by (rule generate_Inl)
next
  assume "generate_multi lib sv prefixed_target count kwargs_dict g = (Inl e, sv', g')"
  then show "sv' = sv" by (rule generate_multi_Inl)
next
  assume "generate lib sv target count kw g = (Inr r1, sv1, g1) \<and>
          generate lib sv1 target count2 kw2 g1 = (Inr r2, sv2, g2)"
  then have 1: "sv1 = dict_set sv target (Params (stored_kwargs kw))"
    and 2: "sv2 = dict_set sv1 target (Params (stored_kwargs kw2))"
    by (auto dest: generate_Inr(2))
  from 1 have "target \<in> set (dict_keys sv1)"
    by (simp add: dict_keys_dict_set)
  with 2 show "dict_keys sv2 = dict_keys sv1"
    by (simp add: dict_keys_dict_set)
next
  assume "generate lib sv target count kw g = (Inr r1, sv1, g1) \<and>
          generate lib sv1 target count2 kw2 g1 = (Inr r2, sv2, g2)"
  then have "sv2 = dict_set sv1 target (Params (stored_kwargs kw2))"
    by (auto dest: generate_Inr(2))
  then show "dict_get sv2 target = Some (Params (stored_kwargs kw2))"
    by (simp add: dict_get_dict_set)
next
  assume "generate_multi lib sv prefixed_target count kwargs_dict g = (Inr r3, sv3, g3) \<and>
          generate_multi lib sv3 prefixed_target count2 kwargs_dict2 g3 = (Inr r4, sv4, g4)"
  then have 3: "sv3 = dict_set sv (''multi_'' @ lstrip ''multi_'' prefixed_target) (Nested kwargs_dict)"
    and 4: "sv4 = dict_set sv3 (''multi_'' @ lstrip ''multi_'' prefixed_target) (Nested kwargs_dict2)"
    by (auto dest: generate_multi_Inr)
  from 3 have "''multi_'' @ lstrip ''multi_'' prefixed_target \<in> set (dict_keys sv3)"
    by (simp add: dict_keys_dict_set)
  with 4 show "dict_keys sv4 = dict_keys sv3"
    by (simp add: dict_keys_dict_set)
next
  assume "generate_multi lib sv prefixed_target count kwargs_dict g = (Inr r3, sv3, g3) \<and>
          generate_multi lib sv3 prefixed_target count2 kwargs_dict2 g3 = (Inr r4, sv4, g4)"
  then have "sv4 = dict_set sv3 (''multi_'' @ lstrip ''multi_'' prefixed_target) (Nested kwargs_dict2)"
    by (auto dest: generate_multi_Inr)
  then show "dict_get sv4 (''multi_'' @ lstrip ''multi_'' prefixed_target) = Some (Nested kwargs_dict2)"
    by (simp add: dict_get_dict_set)
qed

text \<open>A failing \<open>generate\<close>, a failing \<open>generate_multi\<close>, two successful calls of
  \<open>generate\<close> for \<open>Action\<close>, the second with three-point parameters, and two successful
  calls of \<open>generate_multi\<close> for \<open>multi_Loss\<close>.\<close>

theorem store_written_only_on_success_witness:
  "generate example_lib [(''Action'', Params [(''constant'', 1/2)])] ''Action'' 3
     [(''constant'', 5)] 0 =
     (Inl (FairException (OutOfRange ''Action'' ''constant'')),
      [(''Action'', Params [(''constant'', 1/2)])], 0) \<and>
   generate_multi example_lib [(''Action'', Params [(''constant'', 1/2)])] ''multi_x'' 3
     [(''A'', [(''a'', [(''constant'', 1)])]), (''B'', [(''a'', [(''constant'', -1)])])] 0 =
     (Inl (FairException (NegativeValue ''constant'')),
      [(''Action'', Params [(''constant'', 1/2)])], 0) \<and>
   generate example_lib [] ''Action'' 2 [(''constant'', 1/2)] 0 =
     (Inr [1/2, 1/2], [(''Action'', Params [(''constant'', 1/2)])], 0) \<and>
   generate example_lib [(''Action'', Params [(''constant'', 1/2)])] ''Action'' 3
     [(''low'', 0), (''mode'', 1/2), (''high'', 1)] 0 =
     (Inr [1/2, 1/2, 1/2],
      [(''Action'', Params [(''low'', 0), (''mode'', 1/2), (''high'', 1), (''gamma'', 4)])], 3) \<and>
   dict_keys [(''Action'', Params [(''low'', 0), (''mode'', 1/2), (''high'', 1), (''gamma'', 4)])]
     = dict_keys [(''Action'', Params [(''constant'', 1/2)])] \<and>
   generate_multi example_lib [] ''multi_Loss'' 2
     [(''A'', [(''a'', [(''constant'', 2)])]), (''B'', [(''a'', [(''constant'', 3)])])] 0 =
     (Inr [6, 6],
      [(''multi_Loss'',
        Nested [(''A'', [(''a'', [(''constant'', 2)])]), (''B'', [(''a'', [(''constant'', 3)])])])], 0) \<and>
   generate_multi example_lib
     [(''multi_Loss'',
       Nested [(''A'', [(''a'', [(''constant'', 2)])]), (''B'', [(''a'', [(''constant'', 3)])])])]
     ''multi_Loss'' 1
     [(''A'', [(''a'', [(''constant'', 5)])]), (''B'', [(''a'', [(''constant'', 7)])])] 0 =
     (Inr [35],
      [(''multi_Loss'',
        Nested [(''A'', [(''a'', [(''constant'', 5)])]), (''B'', [(''a'', [(''constant'', 7)])])])], 0) \<and>
   dict_get
     [(''multi_Loss'',
       Nested [(''A'', [(''a'', [(''constant'', 5)])]), (''B'', [(''a'', [(''constant'', 7 :: real)])])])]
     (''multi_'' @ lstrip ''multi_'' ''multi_Loss'') =
     Some (Nested [(''A'', [(''a'', [(''constant'', 5)])]), (''B'', [(''a'', [(''constant'', 7)])])])"
proof -
  let ?sv = "[(''Action'', Params [(''constant'', 1/2)])]"
  let ?sv2 = "[(''Action'', Params [(''low'', 0), (''mode'', 1/2), (''high'', 1), (''gamma'', 4)])]"
  let ?k1 = "[(''A'', [(''a'', [(''constant'', 2 :: real)])]), (''B'', [(''a'', [(''constant'', 3)])])]"
  let ?k2 = "[(''A'', [(''a'', [(''constant'', 5 :: real)])]), (''B'', [(''a'', [(''constant'', 7)])])]"
  have a: "generate example_lib ?sv ''Action'' 3 [(''constant'', 5)] 0 =
             (Inl (FairException (OutOfRange ''Action'' ''constant'')), ?sv, 0)"
    by code_simp
  have b: "generate_multi example_lib ?sv ''multi_x'' 3
             [(''A'', [(''a'', [(''constant'', 1)])]), (''B'', [(''a'', [(''constant'', -1)])])] 0 =
             (Inl (FairException (NegativeValue ''constant'')), ?sv, 0)"
    by code_simp
  have c: "generate example_lib [] ''Action'' 2 [(''constant'', 1/2)] 0 =
             (Inr [1/2, 1/2], ?sv, 0)"
    by code_simp
  have d: "generate example_lib ?sv ''Action'' 3 [(''low'', 0), (''mode'', 1/2), (''high'', 1)] 0 =
             (Inr [1/2, 1/2, 1/2], ?sv2, 3)"
    by code_simp
  have m1: "generate_multi example_lib [] ''multi_Loss'' 2 ?k1 0 =
              (Inr [6, 6], [(''multi_Loss'', Nested ?k1)], 0)"
    by code_simp
  have m2: "generate_multi example_lib [(''multi_Loss'', Nested ?k1)] ''multi_Loss'' 1 ?k2 0 =
              (Inr [35], [(''multi_Loss'', Nested ?k2)], 0)"
    by code_simp
  have "dict_keys ?sv2 = dict_keys ?sv \<and>
        dict_get ?sv2 ''Action'' = Some (Params (stored_kwargs [(''low'', 0), (''mode'', 1/2), (''high'', 1)]))"
    by (rule store_written_only_on_success[THEN conjunct2, THEN conjunct2, THEN conjunct1,
          THEN mp, OF conjI[OF c d]])
  moreover have "dict_keys [(''multi_Loss'', Nested ?k2)] = dict_keys [(''multi_Loss'', Nested ?k1)] \<and>
        dict_get [(''multi_Loss'', Nested ?k2)] (''multi_'' @ lstrip ''multi_'' ''multi_Loss'')
          = Some (Nested ?k2)"
    by (rule store_written_only_on_success[THEN conjunct2, THEN conjunct2, THEN conjunct2,
          THEN mp, OF conjI[OF m1 m2]])
  ultimately show ?thesis using a b c d m1 m2 by simp
qed

section \<open>Constants\<close>

text \<open>
  C7, as the specification states it: \<open>generate\<close> with \<open>constant = c\<close> returns \<open>n\<close> copies of
  \<open>c\<close> for every target and every \<open>c\<close> that is not negative. For the bounded target
  \<open>Action\<close> and \<open>c = 5\<close> the call raises.
\<close>

theorem constant_on_bounded_target_counterexample:
  "generate example_lib [] ''Action'' 3 [(''constant'', 5)] 0 =
     (Inl (FairException (OutOfRange ''Action'' ''constant'')), [], 0)"
  by code_simp

text \<open>
  C7, amended. For a target that is not Bernoulli-only, a count of at least one and a
  constant \<open>c\<close> that is not negative, and that is at most one when the target is in
  \<open>_le_1_targets\<close>, \<open>generate\<close> with \<open>constant = c\<close> returns \<open>n\<close> copies of \<open>c\<close> and stores
  the keyword arguments.
\<close>

theorem constant_copies:
  assumes "target \<notin> set bernoulli_targets"
    and "1 \<le> n" and "0 \<le> c"
    and "target \<in> set le_1_targets \<longrightarrow> c \<le> 1"
  shows "generate lib sv target n [(''constant'', c)] g =
           (Inr (replicate (nat n) c), dict_set sv target (Params [(''constant'', c)]), g)"
proof -
  have clip: "clip (replicate (nat n) c) 0 1 = replicate (nat n) c" if "c \<le> 1"
    using that assms(3) by (simp add: clip_def)
  have "generate_single lib target n [(''constant'', c)] g = (Inr (replicate (nat n) c), g)"
    using assms clip
    by (simp add: generate_single_def determine_func_constant check_parameters_def
        dict_keys_def gen_constant_def dict_get_def keyword_is_relevant_def)
  then show ?thesis
    by (simp add: generate_def stored_kwargs_def dict_keys_def)
qed

theorem constant_copies_witness:
  "''Loss Event Frequency'' \<notin> set bernoulli_targets \<and>
   ''Action'' \<notin> set bernoulli_targets \<and> ''Action'' \<in> set le_1_targets \<and>
   generate example_lib [] ''Loss Event Frequency'' 3 [(''constant'', 7)] 0 =
     (Inr [7, 7, 7], [(''Loss Event Frequency'', Params [(''constant'', 7)])], 0) \<and>
   generate example_lib [] ''Action'' 2 [(''constant'', 1/4)] 0 =
     (Inr [1/4, 1/4], [(''Action'', Params [(''constant'', 1/4)])], 0)"
proof -
  have t1: "''Loss Event Frequency'' \<notin> set bernoulli_targets"
    and t2: "''Action'' \<notin> set bernoulli_targets"
    by (simp_all add: bernoulli_targets_def)
  have b1: "''Loss Event Frequency'' \<in> set le_1_targets \<longrightarrow> (7 :: real) \<le> 1"
    and b2: "''Action'' \<in> set le_1_targets \<longrightarrow> (1/4 :: real) \<le> 1"
    and b3: "''Action'' \<in> set le_1_targets"
    by (simp_all add: le_1_targets_def)
  have r3: "replicate (nat 3) (7 :: real) = [7, 7, 7]"
    and r2: "replicate (nat 2) (1/4 :: real) = [1/4, 1/4]"
    by (simp_all add: numeral_2_eq_2 numeral_3_eq_3)
  have "generate example_lib [] ''Loss Event Frequency'' 3 [(''constant'', 7)] 0 =
          (Inr [7, 7, 7], [(''Loss Event Frequency'', Params [(''constant'', 7)])], 0)"
    using constant_copies[OF t1 _ _ b1, of 3 example_lib "[]" 0] r3 by simp
  moreover have "generate example_lib [] ''Action'' 2 [(''constant'', 1/4)] 0 =
          (Inr [1/4, 1/4], [(''Action'', Params [(''constant'', 1/4)])], 0)"
    using constant_copies[OF t2 _ _ b2, of 2 example_lib "[]" 0] r2 by simp
  ultimately show ?thesis using t1 t2 b3 by simp
qed

section \<open>Order of the checks\<close>

text \<open>
  C8, as the specification states it: the required keywords are checked before the
  signs, so that \<open>low = -1, mode = 2\<close>, which lacks \<open>high\<close>, raises the missing-keyword
  error. The loop over the signs comes first in \<open>_check_parameters\<close>.
\<close>

theorem negative_and_missing_counterexample:
  "determine_func [(''low'', -1), (''mode'', 2)] = Inr Gen_pert \<and>
   ''high'' \<notin> set (dict_keys [(''low'', -1 :: real), (''mode'', 2)]) \<and>
   generate example_lib [] ''Loss Event Frequency'' 5 [(''low'', -1), (''mode'', 2)] 0 =
     (Inl (FairException (NegativeValue ''low'')), [], 0)"
  by code_simp

text \<open>
  C8, amended. The checks of a request for a target that is not Bernoulli-only run in the
  order: bounded range on the raw input, family, signs, required keywords, then (for
  PERT) the ordering, then sampling; the error raised is that of the first check that
  fails:
  \<^item> a target in \<open>_le_1_targets\<close> with a value outside \<open>[0, 1]\<close> (under a key other than
    \<open>stdev\<close>) raises the out-of-range error for the first such key, whatever the other
    checks would say;
  \<^item> otherwise an error of the family determination is raised, also when a value is
    negative;
  \<^item> otherwise a negative value under a relevant keyword raises the negative-value error
    for the first such keyword, whether or not a required keyword is missing;
  \<^item> otherwise a missing required keyword raises the missing-keyword error for the first
    one missing, also when the PERT ordering is violated;
  \<^item> otherwise, for the PERT family, \<open>mode < low\<close> raises the ordering error for
    \<open>mode >= low\<close>, else \<open>high < mode\<close> raises it for \<open>high >= mode\<close>, else the PERT
    sampler is called.
\<close>

theorem order_of_checks:
  "(target \<in> set le_1_targets \<and>
    find (\<lambda>(key, v). key \<noteq> ''stdev'' \<and> \<not> (0 \<le> v \<and> v \<le> 1)) kw = Some (k, v) \<longrightarrow>
      generate_single lib target count kw g = (Inl (FairException (OutOfRange target k)), g)) \<and>
   (target \<notin> set bernoulli_targets \<and>
    (target \<notin> set le_1_targets \<or>
     find (\<lambda>(key, v). key \<noteq> ''stdev'' \<and> \<not> (0 \<le> v \<and> v \<le> 1)) kw = None) \<longrightarrow>
      (determine_func kw = Inl e \<longrightarrow> generate_single lib target count kw g = (Inl e, g)) \<and>
      (determine_func kw = Inr f \<longrightarrow>
         (find (\<lambda>(k, v). keyword_is_relevant k \<and> v < 0) kw = Some (k, v) \<longrightarrow>
            generate_single lib target count kw g = (Inl (FairException (NegativeValue k)), g)) \<and>
         (find (\<lambda>(k, v). keyword_is_relevant k \<and> v < 0) kw = None \<longrightarrow>
            (find (\<lambda>r. r \<notin> set (dict_keys kw)) (required_keywords f) = Some r \<longrightarrow>
               generate_single lib target count kw g
                 = (Inl (FairException (MissingKeyword f r)), g)) \<and>
            (find (\<lambda>r. r \<notin> set (dict_keys kw)) (required_keywords f) = None \<and> f = Gen_pert \<longrightarrow>
               (\<exists>low mode high.
                  dict_get kw ''low'' = Some low \<and> dict_get kw ''mode'' = Some mode \<and>
                  dict_get kw ''high'' = Some high \<and>
                  (\<not> low \<le> mode \<longrightarrow>
                     generate_single lib target count kw g
                       = (Inl (FairException (PertOrdering kw ''mode >= low'')), g)) \<and>
                  (low \<le> mode \<and> \<not> mode \<le> high \<longrightarrow>
                     generate_single lib target count kw g
                       = (Inl (FairException (PertOrdering kw ''high >= mode'')), g)) \<and>
                  (low \<le> mode \<and> mode \<le> high \<longrightarrow>
                     generate_single lib target count kw g
                       = (case pert_random_variates lib kw count g of
                            (Inl e', g') \<Rightarrow> (Inl e', g')
                          | (Inr results, g') \<Rightarrow>
                              (Inr (if target \<in> set le_1_targets then clip results 0 1
                                    else results), g'))))))))"
proof (intro conjI impI)
  assume "target \<in> set le_1_targets \<and>
    find (\<lambda>(key, v). key \<noteq> ''stdev'' \<and> \<not> (0 \<le> v \<and> v \<le> 1)) kw = Some (k, v)"
  then show "generate_single lib target count kw g = (Inl (FairException (OutOfRange target k)), g)"
    by (simp add: generate_single_def check_le_1_find)
next
  assume "target \<notin> set bernoulli_targets \<and>
    (target \<notin> set le_1_targets \<or>
     find (\<lambda>(key, v). key \<noteq> ''stdev'' \<and> \<not> (0 \<le> v \<and> v \<le> 1)) kw = None)"
    and "determine_func kw = Inl e"
  then show "generate_single lib target count kw g = (Inl e, g)"
    by (auto simp: generate_single_staged)
next
  assume "target \<notin> set bernoulli_targets \<and>
    (target \<notin> set le_1_targets \<or>
     find (\<lambda>(key, v). key \<noteq> ''stdev'' \<and> \<not> (0 \<le> v \<and> v \<le> 1)) kw = None)"
    and "determine_func kw = Inr f"
    and "find (\<lambda>(k, v). keyword_is_relevant k \<and> v < 0) kw = Some (k, v)"
  then show "generate_single lib target count kw g = (Inl (FairException (NegativeValue k)), g)"
    by (auto simp: generate_single_staged)
next
  assume "target \<notin> set bernoulli_targets \<and>
    (target \<notin> set le_1_targets \<or>
     find (\<lambda>(key, v). key \<noteq> ''stdev'' \<and> \<not> (0 \<le> v \<and> v \<le> 1)) kw = None)"
    and "determine_func kw = Inr f"
    and "find (\<lambda>(k, v). keyword_is_relevant k \<and> v < 0) kw = None"
    and "find (\<lambda>r. r \<notin> set (dict_keys kw)) (required_keywords f) = Some r"
  then show "generate_single lib target count kw g = (Inl (FairException (MissingKeyword f r)), g)"
    by (auto simp: generate_single_staged)
next
  assume b: "target \<notin> set bernoulli_targets \<and>
    (target \<notin> set le_1_targets \<or>
     find (\<lambda>(key, v). key \<noteq> ''stdev'' \<and> \<not> (0 \<le> v \<and> v \<le> 1)) kw = None)"
    and d: "determine_func kw = Inr f"
    and n: "find (\<lambda>(k, v). keyword_is_relevant k \<and> v < 0) kw = None"
    and m: "find (\<lambda>r. r \<notin> set (dict_keys kw)) (required_keywords f) = None \<and> f = Gen_pert"
  from m have "''low'' \<in> set (dict_keys kw)" "''mode'' \<in> set (dict_keys kw)"
    "''high'' \<in> set (dict_keys kw)"
    by (auto simp: find_None_iff)
  then obtain low mode high where
    l: "dict_get kw ''low'' = Some low" and mo: "dict_get kw ''mode'' = Some mode" and
    h: "dict_get kw ''high'' = Some high"
    by (meson dict_get_Some_if_key)
  have s: "generate_single lib target count kw g =
     (case gen_pert lib count kw g of
        (Inl e, g') \<Rightarrow> (Inl e, g')
      | (Inr results, g') \<Rightarrow>
          (Inr (if target \<in> set le_1_targets then clip results 0 1 else results), g'))"
    using b d n m by (auto simp: generate_single_staged)
  have 1: "\<not> low \<le> mode \<longrightarrow> generate_single lib target count kw g
             = (Inl (FairException (PertOrdering kw ''mode >= low'')), g)"
    using l mo h by (simp add: s gen_pert_def check_pert_def)
  have 2: "low \<le> mode \<and> \<not> mode \<le> high \<longrightarrow> generate_single lib target count kw g
             = (Inl (FairException (PertOrdering kw ''high >= mode'')), g)"
    using l mo h by (simp add: s gen_pert_def check_pert_def)
  have 3: "low \<le> mode \<and> mode \<le> high \<longrightarrow> generate_single lib target count kw g
             = (case pert_random_variates lib kw count g of
                  (Inl e', g') \<Rightarrow> (Inl e', g')
                | (Inr results, g') \<Rightarrow>
                    (Inr (if target \<in> set le_1_targets then clip results 0 1
                          else results), g'))"
    using l mo h by (simp add: s gen_pert_def check_pert_def)
  from l mo h 1 2 3 show "\<exists>low mode high.
      dict_get kw ''low'' = Some low \<and> dict_get kw ''mode'' = Some mode \<and>
      dict_get kw ''high'' = Some high \<and>
      (\<not> low \<le> mode \<longrightarrow>
         generate_single lib target count kw g
           = (Inl (FairException (PertOrdering kw ''mode >= low'')), g)) \<and>
      (low \<le> mode \<and> \<not> mode \<le> high \<longrightarrow>
         generate_single lib target count kw g
           = (Inl (FairException (PertOrdering kw ''high >= mode'')), g)) \<and>
      (low \<le> mode \<and> mode \<le> high \<longrightarrow>
         generate_single lib target count kw g
           = (case pert_random_variates lib kw count g of
                (Inl e', g') \<Rightarrow> (Inl e', g')
              | (Inr results, g') \<Rightarrow>
                  (Inr (if target \<in> set le_1_targets then clip results 0 1
                        else results), g')))"
    by blast
qed

text \<open>One request per stage: out of range for \<open>Action\<close>; mixed keywords with a negative
  value; a negative value with \<open>high\<close> missing; \<open>high\<close> missing with \<open>mode < low\<close>; and the two
  violations of the ordering.\<close>

theorem order_of_checks_witness:
  "generate_single example_lib ''Action'' 5 [(''low'', -1), (''mode'', 2)] 0 =
     (Inl (FairException (OutOfRange ''Action'' ''low'')), 0) \<and>
   determine_func [(''constant'', -1), (''mean'', 2)] =
     Inl (FairException (MixedKeyword [''constant'', ''mean''])) \<and>
   generate_single example_lib ''Loss Event Frequency'' 5 [(''constant'', -1), (''mean'', 2)] 0 =
     (Inl (FairException (MixedKeyword [''constant'', ''mean''])), 0) \<and>
   determine_func [(''low'', -1), (''mode'', 2)] = Inr Gen_pert \<and>
   generate_single example_lib ''Loss Event Frequency'' 5 [(''low'', -1), (''mode'', 2)] 0 =
     (Inl (FairException (NegativeValue ''low'')), 0) \<and>
   generate_single example_lib ''Loss Event Frequency'' 5 [(''low'', 10), (''mode'', 5)] 0 =
     (Inl (FairException (MissingKeyword Gen_pert ''high'')), 0) \<and>
   generate_single example_lib ''Loss Event Frequency'' 5
     [(''low'', 10), (''mode'', 5), (''high'', 20)] 0 =
     (Inl (FairException (PertOrdering [(''low'', 10), (''mode'', 5), (''high'', 20)] ''mode >= low'')), 0) \<and>
   generate_single example_lib ''Loss Event Frequency'' 5
     [(''low'', 1), (''mode'', 5), (''high'', 3)] 0 =
     (Inl (FairException (PertOrdering [(''low'', 1), (''mode'', 5), (''high'', 3)] ''high >= mode'')), 0)"
proof -
  let ?neg = "[(''low'', -1 :: real), (''mode'', 2)]"
  let ?mix = "[(''constant'', -1 :: real), (''mean'', 2)]"
  let ?mis = "[(''low'', 10 :: real), (''mode'', 5)]"
  let ?ord = "[(''low'', 10 :: real), (''mode'', 5), (''high'', 20)]"
  let ?ord2 = "[(''low'', 1 :: real), (''mode'', 5), (''high'', 3)]"
  have b: "''Action'' \<in> set le_1_targets" and u: "''Loss Event Frequency'' \<notin> set le_1_targets"
    by (simp_all add: le_1_targets_def)
  have nb: "''Loss Event Frequency'' \<notin> set bernoulli_targets"
    by (simp add: bernoulli_targets_def)
  have dmix: "determine_func ?mix = Inl (FairException (MixedKeyword [''constant'', ''mean'']))"
    and dneg: "determine_func ?neg = Inr Gen_pert"
    and dmis: "determine_func ?mis = Inr Gen_pert"
    and dord: "determine_func ?ord = Inr Gen_pert"
    and dord2: "determine_func ?ord2 = Inr Gen_pert"
    by code_simp+
  have 1: "generate_single example_lib ''Action'' 5 ?neg 0 =
             (Inl (FairException (OutOfRange ''Action'' ''low'')), 0)"
    using order_of_checks[where target = "''Action''" and kw = ?neg and k = "''low''" and v = "-1"
        and lib = example_lib and count = 5 and g = 0] b
    by simp
  have 2: "generate_single example_lib ''Loss Event Frequency'' 5 ?mix 0 =
             (Inl (FairException (MixedKeyword [''constant'', ''mean''])), 0)"
    using order_of_checks[where target = "''Loss Event Frequency''" and kw = ?mix
        and e = "FairException (MixedKeyword [''constant'', ''mean''])"
        and lib = example_lib and count = 5 and g = 0] u nb dmix
    by simp
  have 3: "generate_single example_lib ''Loss Event Frequency'' 5 ?neg 0 =
             (Inl (FairException (NegativeValue ''low'')), 0)"
    using order_of_checks[where target = "''Loss Event Frequency''" and kw = ?neg
        and f = Gen_pert and k = "''low''" and v = "-1"
        and lib = example_lib and count = 5 and g = 0] u nb dneg
    by (simp add: keyword_is_relevant_def)
  have 4: "generate_single example_lib ''Loss Event Frequency'' 5 ?mis 0 =
             (Inl (FairException (MissingKeyword Gen_pert ''high'')), 0)"
    using order_of_checks[where target = "''Loss Event Frequency''" and kw = ?mis
        and f = Gen_pert and r = "''high''"
        and lib = example_lib and count = 5 and g = 0] u nb dmis
    by (simp add: keyword_is_relevant_def dict_keys_def)
  have 5: "generate_single example_lib ''Loss Event Frequency'' 5 ?ord 0 =
             (Inl (FairException (PertOrdering ?ord ''mode >= low'')), 0)"
    using order_of_checks[where target = "''Loss Event Frequency''" and kw = ?ord
        and f = Gen_pert and lib = example_lib and count = 5 and g = 0] u nb dord
    by (simp add: keyword_is_relevant_def dict_keys_def dict_get_def)
  have 6: "generate_single example_lib ''Loss Event Frequency'' 5 ?ord2 0 =
             (Inl (FairException (PertOrdering ?ord2 ''high >= mode'')), 0)"
    using order_of_checks[where target = "''Loss Event Frequency''" and kw = ?ord2
        and f = Gen_pert and lib = example_lib and count = 5 and g = 0] u nb dord2
    by (simp add: keyword_is_relevant_def dict_keys_def dict_get_def)
  from 1 2 3 4 5 6 dmix dneg show ?thesis by simp
qed

section \<open>Empty keyword arguments\<close>

text \<open>
  C9. For a target that is not Bernoulli-only, \<open>generate\<close> without keyword arguments
  returns no samples and raises no \<open>FairException\<close>: \<open>_determine_func\<close> takes element \<open>0\<close> of
  an empty list, which is Python's \<open>IndexError\<close>. The store is left as it was.
\<close>

theorem empty_kwargs_index_error:
  assumes "target \<notin> set bernoulli_targets"
  shows "generate lib sv target count [] g = (Inl IndexError, sv, g)"
proof -
  have "determine_func [] = Inl IndexError"
    by (simp add: determine_func_def dict_keys_def)
  with assms have "generate_single lib target count [] g = (Inl IndexError, g)"
    by (simp add: generate_single_def)
  then show ?thesis by (simp add: generate_def)
qed

theorem empty_kwargs_index_error_witness:
  "''Action'' \<notin> set bernoulli_targets \<and>
   generate example_lib [(''Action'', Params [(''constant'', 1)])] ''Action'' 3 [] 7 =
     (Inl IndexError, [(''Action'', Params [(''constant'', 1)])], 7)"
proof -
  have t: "''Action'' \<notin> set bernoulli_targets"
    by (simp add: bernoulli_targets_def)
  from empty_kwargs_index_error[OF t] t show ?thesis by simp
qed

section \<open>Sub-targets without a common column\<close>

text \<open>
  C10, as stated: two sub-targets with disjoint sets of column names make \<open>generate_multi\<close>
  return \<open>count\<close> copies of zero, and the call does not fail. Two sub-targets without any
  column have disjoint sets of column names, and the sum over the rows of the empty
  product is empty; and a column whose own parameters are refused still fails the call.
\<close>

theorem disjoint_columns_counterexample:
  "set (dict_keys ([] :: (string \<times> kwargs) list)) \<inter> set (dict_keys ([] :: (string \<times> kwargs) list)) = {} \<and>
   generate_multi example_lib [] ''multi_Loss'' 3 [(''A'', []), (''B'', [])] 0 =
     (Inr [], [(''multi_Loss'', Nested [(''A'', []), (''B'', [])])], 0) \<and>
   generate_multi example_lib [] ''multi_Loss'' 3
     [(''A'', [(''a'', [(''constant'', -1)])]), (''B'', [(''b'', [(''constant'', 1)])])] 0 =
     (Inl (FairException (NegativeValue ''constant'')), [], 0)"
  by code_simp

text \<open>
  C10, amended. Let the sampling libraries return \<open>count\<close> samples per call. When
  \<open>generate_multi\<close> is given two sub-targets whose sets of column names are disjoint, at
  least one of which has a column, and every column is generated without an error, the
  call does not fail: every cell of the product is missing, the sum of each row is zero,
  the result is \<open>count\<close> copies of zero, and the nested dictionary is stored.
\<close>

theorem disjoint_columns_sum_to_zero:
  assumes "returns_count lib"
    and "gen_frames lib count [(t1, cols1), (t2, cols2)] g = (Inr df_dict, g')"
    and "set (dict_keys cols1) \<inter> set (dict_keys cols2) = {}"
    and "cols1 \<noteq> [] \<or> cols2 \<noteq> []"
  shows "generate_multi lib sv prefixed_target count [(t1, cols1), (t2, cols2)] g =
           (Inr (replicate (nat count) 0),
            dict_set sv (''multi_'' @ lstrip ''multi_'' prefixed_target)
              (Nested [(t1, cols1), (t2, cols2)]),
            g')"
proof -
  from gen_frames_two[OF assms(2)] obtain df1 df2 g1 where
    c1: "gen_columns lib t1 count cols1 empty_dataframe g = (Inr df1, g1)" and
    c2: "gen_columns lib t2 count cols2 empty_dataframe g1 = (Inr df2, g')" and
    dd: "df_dict = [(t1, df1), (t2, df2)]"
    by blast
  have e: "nrows empty_dataframe = (if columns empty_dataframe = [] then 0 else nat count)"
    by (simp add: empty_dataframe_def)
  from gen_columns_shape[OF assms(1) c1 e] have
    n1: "nrows df1 = (if columns df1 = [] then 0 else nat count)" and
    k1: "set (dict_keys (columns df1)) = set (dict_keys cols1)"
    by (simp_all add: empty_dataframe_def dict_keys_def)
  from gen_columns_shape[OF assms(1) c2 e] have
    n2: "nrows df2 = (if columns df2 = [] then 0 else nat count)" and
    k2: "set (dict_keys (columns df2)) = set (dict_keys cols2)"
    by (simp_all add: empty_dataframe_def dict_keys_def)
  have "columns df1 \<noteq> [] \<or> columns df2 \<noteq> []"
    using assms(4) k1 k2 by (auto simp: dict_keys_def)
  then have "max (nrows df1) (nrows df2) = nat count"
    using n1 n2 by auto
  moreover have "set (dict_keys (columns df1)) \<inter> set (dict_keys (columns df2)) = {}"
    using assms(3) k1 k2 by simp
  ultimately have "sum_axis1 (df_mul df1 df2) = replicate (nat count) 0"
    by (simp add: sum_axis1_disjoint)
  then show ?thesis
    using assms(2) dd by (simp add: generate_multi_def del: gen_frames.simps)
qed

theorem disjoint_columns_sum_to_zero_witness:
  "returns_count example_lib \<and>
   gen_frames example_lib 2
     [(''A'', [(''a'', [(''constant'', 2)])]), (''B'', [(''b'', [(''constant'', 7)])])] 0 =
     (Inr [(''A'', \<lparr>nrows = 2, columns = [(''a'', [Some 2, Some 2])]\<rparr>),
           (''B'', \<lparr>nrows = 2, columns = [(''b'', [Some 7, Some 7])]\<rparr>)], 0) \<and>
   generate_multi example_lib [] ''multi_Loss'' 2
     [(''A'', [(''a'', [(''constant'', 2)])]), (''B'', [(''b'', [(''constant'', 7)])])] 0 =
     (Inr [0, 0],
      [(''multi_Loss'',
        Nested [(''A'', [(''a'', [(''constant'', 2)])]), (''B'', [(''b'', [(''constant'', 7)])])])],
      0)"
proof -
  let ?c1 = "[(''a'', [(''constant'', 2 :: real)])]"
  let ?c2 = "[(''b'', [(''constant'', 7 :: real)])]"
  have f: "gen_frames example_lib 2 [(''A'', ?c1), (''B'', ?c2)] 0 =
     (Inr [(''A'', \<lparr>nrows = 2, columns = [(''a'', [Some 2, Some 2])]\<rparr>),
           (''B'', \<lparr>nrows = 2, columns = [(''b'', [Some 7, Some 7])]\<rparr>)], 0)"
    by code_simp
  have d: "set (dict_keys ?c1) \<inter> set (dict_keys ?c2) = {}"
    by (simp add: dict_keys_def)
  have n: "?c1 \<noteq> [] \<or> ?c2 \<noteq> []" by simp
  have k: "''multi_'' @ lstrip ''multi_'' ''multi_Loss'' = ''multi_Loss''"
    by code_simp
  have r: "replicate (nat 2) (0 :: real) = [0, 0]"
    by (simp add: numeral_2_eq_2)
  from disjoint_columns_sum_to_zero[OF returns_count_example_lib f d n, of "[]" "''multi_Loss''"]
  have "generate_multi example_lib [] ''multi_Loss'' 2 [(''A'', ?c1), (''B'', ?c2)] 0 =
     (Inr [0, 0], [(''multi_Loss'', Nested [(''A'', ?c1), (''B'', ?c2)])], 0)"
    by (simp only: k r dict_set.simps)
  with returns_count_example_lib f show ?thesis by simp
qed

end
